theory Spec2Isabelle
  imports Main "HOL-Library.Word"
begin

section \<open>Go values the helper handles\<close>

text \<open>
  \<^verbatim>\<open>int64\<close> is a 64-bit word (read with \<open>sint\<close>); \<^verbatim>\<open>time.Duration\<close> is a number of
  nanoseconds. Query arguments and scanned columns have Go type \<^verbatim>\<open>any\<close>; only the shapes
  the repository's own calls use are listed.
\<close>

type_synonym int64 = "64 word"

type_synonym Duration = int

datatype any = AnyNil | AnyInt int | AnyString string | AnyStrings "string list"

subsection \<open>Errors\<close>

text \<open>
  A Go \<^verbatim>\<open>error\<close> is either a plain value (\<^verbatim>\<open>errors.New\<close>), a typed database error
  (\<^verbatim>\<open>*pgconn.PgError\<close>, with its SQLSTATE code and message), or the result of
  \<^verbatim>\<open>fmt.Errorf("<prefix>%w", err)\<close>, which keeps \<open>err\<close> reachable through \<^verbatim>\<open>Unwrap\<close>.
  A nil error is \<open>None\<close> of \<open>error option\<close>.
\<close>

datatype error = ErrorNew string | PgError string string | Errorf string error

fun error_Error :: "error \<Rightarrow> string" where
  "error_Error (ErrorNew s) = s"
| "error_Error (PgError code msg) = msg @ '' (SQLSTATE '' @ code @ '')''"
| "error_Error (Errorf prefix err) = prefix @ error_Error err"

fun errors_Unwrap :: "error \<Rightarrow> error option" where
  "errors_Unwrap (Errorf prefix err) = Some err"
| "errors_Unwrap err = None"

fun errors_Is :: "error \<Rightarrow> error \<Rightarrow> bool" where
  "errors_Is (Errorf prefix err) target =
     (if Errorf prefix err = target then True else errors_Is err target)"
| "errors_Is err target = (err = target)"

text \<open>\<^verbatim>\<open>errors.As\<close> for the target type \<^verbatim>\<open>*pgconn.PgError\<close>: the first typed database
  error on the unwrap chain.\<close>

fun errors_As_PgError :: "error \<Rightarrow> (string \<times> string) option" where
  "errors_As_PgError (PgError code msg) = Some (code, msg)"
| "errors_As_PgError (Errorf prefix err) = errors_As_PgError err"
| "errors_As_PgError (ErrorNew s) = None"

definition ErrNoRows :: error where
  "ErrNoRows = ErrorNew ''no rows in result set''"

definition ErrQueryNotFound :: error where
  "ErrQueryNotFound = ErrorNew ''query not found''"

text \<open>A call either returns or panics (a process-fatal condition, not an error value).\<close>

datatype 'a outcome = Return 'a | Panic string

definition nil_dereference :: string where
  "nil_dereference = ''runtime error: invalid memory address or nil pointer dereference''"

subsection \<open>Pools, transactions and the Querier interface\<close>

record Config =
  ConnString :: string
  Database :: string

datatype Pool = Pool nat Config

fun Pool_Config :: "Pool \<Rightarrow> Config" where
  "Pool_Config (Pool n conf) = conf"

datatype Tx = Tx nat

text \<open>
  A \<^verbatim>\<open>Querier\<close> interface value holds either the helper's \<^verbatim>\<open>*pgxpool.Pool\<close> pointer
  (which is nil until \<^verbatim>\<open>Connect\<close> has set it) or a transaction.
\<close>

datatype Querier = QPool "Pool option" | QTx Tx

record TxOptions =
  IsoLevel :: string
  AccessMode :: string
  DeferrableMode :: string
  BeginQuery :: string
  CommitQuery :: string

definition TxOptions_zero :: TxOptions where
  "TxOptions_zero = \<lparr>IsoLevel = [], AccessMode = [], DeferrableMode = [],
     BeginQuery = [], CommitQuery = []\<rparr>"

subsection \<open>Contexts\<close>

text \<open>
  A \<^verbatim>\<open>context.Context\<close> is an immutable chain: \<^verbatim>\<open>context.Background()\<close>, extended by
  \<^verbatim>\<open>context.WithValue\<close> (one key and value per link) or \<^verbatim>\<open>context.WithTimeout\<close>.
  \<^verbatim>\<open>txKey{}\<close> is the private key of the helper; every other key is foreign. A stored value
  is the nil interface, a transaction, or something that is no \<^verbatim>\<open>pgx.Tx\<close>.
\<close>

datatype ctxKey = txKey | otherKey string

datatype ctxVal = ValNil | ValTx Tx | ValOther string

datatype Context =
    Background
  | WithValue Context ctxKey ctxVal
  | WithTimeout Context Duration

fun Context_Value :: "Context \<Rightarrow> ctxKey \<Rightarrow> ctxVal" where
  "Context_Value Background key = ValNil"
| "Context_Value (WithValue parent k v) key = (if k = key then v else Context_Value parent key)"
| "Context_Value (WithTimeout parent t) key = Context_Value parent key"

fun Context_parent :: "Context \<Rightarrow> Context option" where
  "Context_parent Background = None"
| "Context_parent (WithValue parent k v) = Some parent"
| "Context_parent (WithTimeout parent t) = Some parent"

text \<open>A \<^verbatim>\<open>pgx.Tx\<close> interface value is \<open>None\<close> (nil) or \<open>Some tx\<close>; converted to \<^verbatim>\<open>any\<close>, the
  nil interface stays nil.\<close>

fun any_of_Tx :: "Tx option \<Rightarrow> ctxVal" where
  "any_of_Tx None = ValNil"
| "any_of_Tx (Some tx) = ValTx tx"

definition ctxWithTx :: "Context \<Rightarrow> Tx option \<Rightarrow> Context" where
  "ctxWithTx ctx tx = WithValue ctx txKey (any_of_Tx tx)"

text \<open>The type assertion \<^verbatim>\<open>ctx.Value(txKey{}).(pgx.Tx)\<close> succeeds on a transaction only.\<close>

definition ctxGetTx :: "Context \<Rightarrow> Tx option" where
  "ctxGetTx ctx = (case Context_Value ctx txKey of ValTx tx \<Rightarrow> Some tx | _ \<Rightarrow> None)"

text \<open>
  The specification's reading of "the transaction a context carries": the innermost
  attachment on the chain, found by walking the links themselves.
\<close>

fun carried :: "Context \<Rightarrow> Tx option" where
  "carried Background = None"
| "carried (WithTimeout parent t) = carried parent"
| "carried (WithValue parent (otherKey s) v) = carried parent"
| "carried (WithValue parent txKey (ValTx tx)) = Some tx"
| "carried (WithValue parent txKey v) = None"

section \<open>The helper\<close>

datatype ScanAPI = ScanAPI bool

record DBHelper =
  pool :: "Pool option"
  scanAPI :: ScanAPI

definition WithScanAPI :: "ScanAPI \<Rightarrow> DBHelper \<Rightarrow> DBHelper" where
  "WithScanAPI api h = h\<lparr>scanAPI := api\<rparr>"

text \<open>\<^verbatim>\<open>New\<close> starts from a helper without a pool, whose scanner allows unknown columns, and
  applies the options in order.\<close>

definition New :: "(DBHelper \<Rightarrow> DBHelper) list \<Rightarrow> DBHelper" where
  "New opts = fold (\<lambda>opt h. opt h) opts \<lparr>pool = None, scanAPI = ScanAPI True\<rparr>"

definition Querier :: "DBHelper \<Rightarrow> Context \<Rightarrow> Querier" where
  "Querier d ctx = (case ctxGetTx ctx of Some tx \<Rightarrow> QTx tx | None \<Rightarrow> QPool (pool d))"

definition requireNoTransaction :: "DBHelper \<Rightarrow> Context \<Rightarrow> unit outcome" where
  "requireNoTransaction d ctx =
     (case ctxGetTx ctx of
        Some tx \<Rightarrow> Panic ''context already contains an unexpected transaction''
      | None \<Rightarrow> Return ())"

section \<open>The database and the collaborators\<close>

text \<open>
  Everything the helper does to the outside goes through pgx, pgxpool and scany. The
  \<open>world\<close> is the list of calls that reached them, oldest first; a \<open>driver\<close> holds their
  answers, each a function of the calls made so far and of the call's arguments, in the
  shape of the Go result (a pair where Go returns a value and an error).
\<close>

type_synonym Rows = "any list list"

type_synonym dest = "any list list"

datatype CommandTag = CommandTag int64

fun RowsAffected :: "CommandTag \<Rightarrow> int64" where
  "RowsAffected (CommandTag n) = n"

datatype event =
    EvNewWithConfig Context Config
  | EvPing Pool Context
  | EvQuery Querier Context string "any list"
  | EvRowsClose
  | EvExec Querier Context string "any list"
  | EvScanGet ScanAPI Querier Context string "any list"
  | EvScanSelect ScanAPI Querier Context string "any list"
  | EvBeginTx Pool Context TxOptions
  | EvCommit Tx Context
  | EvRollback Tx Context

type_synonym world = "event list"

record driver =
  pgxpool_ParseConfig :: "string \<Rightarrow> error + Config"
  pgxpool_NewWithConfig :: "world \<Rightarrow> Context \<Rightarrow> Config \<Rightarrow> Pool option \<times> error option"
  Pool_Ping :: "world \<Rightarrow> Pool \<Rightarrow> Context \<Rightarrow> error option"
  Querier_Query :: "world \<Rightarrow> Querier \<Rightarrow> Context \<Rightarrow> string \<Rightarrow> any list \<Rightarrow> Rows \<times> error option"
  Querier_Exec ::
    "world \<Rightarrow> Querier \<Rightarrow> Context \<Rightarrow> string \<Rightarrow> any list \<Rightarrow> CommandTag \<times> error option"
  scanAPI_Get ::
    "world \<Rightarrow> ScanAPI \<Rightarrow> Querier \<Rightarrow> Context \<Rightarrow> dest \<Rightarrow> string \<Rightarrow> any list
       \<Rightarrow> dest \<times> error option"
  scanAPI_Select ::
    "world \<Rightarrow> ScanAPI \<Rightarrow> Querier \<Rightarrow> Context \<Rightarrow> dest \<Rightarrow> string \<Rightarrow> any list
       \<Rightarrow> dest \<times> error option"
  Pool_BeginTx :: "world \<Rightarrow> Pool \<Rightarrow> Context \<Rightarrow> TxOptions \<Rightarrow> error + Tx"
  Tx_Commit :: "world \<Rightarrow> Tx \<Rightarrow> Context \<Rightarrow> error option"
  Tx_Rollback :: "world \<Rightarrow> Tx \<Rightarrow> Context \<Rightarrow> error option"
  begin_prefix :: string
  commit_prefix :: string
  rollback_prefix :: string

text \<open>A method of \<^verbatim>\<open>*pgxpool.Pool\<close> called through a nil pointer reads a field of the
  pool and panics; a transaction is never nil here.\<close>

fun is_nil_pool :: "Querier \<Rightarrow> bool" where
  "is_nil_pool (QPool None) = True"
| "is_nil_pool q = False"

subsection \<open>Connection lifecycle\<close>

definition Ping :: "driver \<Rightarrow> DBHelper \<Rightarrow> Context \<Rightarrow> world \<Rightarrow> error option outcome \<times> world" where
  "Ping drv d ctx w =
     (case pool d of
        None \<Rightarrow> (Panic nil_dereference, w)
      | Some p \<Rightarrow>
          (case Pool_Ping drv w p ctx of
             Some err \<Rightarrow> (Return (Some (Errorf ''database ping error: '' err)), w @ [EvPing p ctx])
           | None \<Rightarrow>
               (let w1 = w @ [EvPing p ctx];
                    sql = ''SELECT 1 AS result FROM pg_database WHERE datname = $1'';
                    args = [AnyString (Database (Pool_Config p))];
                    w2 = w1 @ [EvQuery (QPool (Some p)) ctx sql args]
                in case Querier_Query drv w1 (QPool (Some p)) ctx sql args of
                     (rows, Some err) \<Rightarrow>
                       (Return (Some (Errorf ''database query failure: '' err)), w2)
                   | (rows, None) \<Rightarrow> (Return None, w2 @ [EvRowsClose]))))"

text \<open>\<^verbatim>\<open>Connect\<close> assigns \<^verbatim>\<open>d.pool\<close>, so it returns the helper as it is afterwards.\<close>

definition Connect ::
  "driver \<Rightarrow> DBHelper \<Rightarrow> string \<Rightarrow> Duration \<Rightarrow> world
     \<Rightarrow> (error option outcome \<times> DBHelper) \<times> world" where
  "Connect drv d connStr timeout w =
     (let ctx = WithTimeout Background timeout in
      case pgxpool_ParseConfig drv connStr of
        Inl err \<Rightarrow> ((Return (Some (Errorf ''parse database config failure: '' err)), d), w)
      | Inr conf \<Rightarrow>
          (let (p, err) = pgxpool_NewWithConfig drv w ctx conf;
               d' = d\<lparr>pool := p\<rparr>;
               w1 = w @ [EvNewWithConfig ctx conf]
           in case err of
                Some e \<Rightarrow> ((Return (Some (Errorf ''database pool creation failure: '' e)), d'), w1)
              | None \<Rightarrow> (let (r, w2) = Ping drv d' ctx w1 in ((r, d'), w2))))"

subsection \<open>Query verbs\<close>

definition Get ::
  "driver \<Rightarrow> DBHelper \<Rightarrow> Context \<Rightarrow> dest \<Rightarrow> string \<Rightarrow> any list \<Rightarrow> world
     \<Rightarrow> (dest \<times> error option) outcome \<times> world" where
  "Get drv d ctx dst query args w =
     (let q = Querier d ctx in
      if is_nil_pool q then (Panic nil_dereference, w)
      else (Return (scanAPI_Get drv w (scanAPI d) q ctx dst query args),
            w @ [EvScanGet (scanAPI d) q ctx query args]))"

definition Select ::
  "driver \<Rightarrow> DBHelper \<Rightarrow> Context \<Rightarrow> dest \<Rightarrow> string \<Rightarrow> any list \<Rightarrow> world
     \<Rightarrow> (dest \<times> error option) outcome \<times> world" where
  "Select drv d ctx dst query args w =
     (let q = Querier d ctx in
      if is_nil_pool q then (Panic nil_dereference, w)
      else (Return (scanAPI_Select drv w (scanAPI d) q ctx dst query args),
            w @ [EvScanSelect (scanAPI d) q ctx query args]))"

definition Exec ::
  "driver \<Rightarrow> DBHelper \<Rightarrow> Context \<Rightarrow> string \<Rightarrow> any list \<Rightarrow> world
     \<Rightarrow> (int64 \<times> error option) outcome \<times> world" where
  "Exec drv d ctx query args w =
     (let q = Querier d ctx in
      if is_nil_pool q then (Panic nil_dereference, w)
      else (case Querier_Exec drv w q ctx query args of
              (tag, Some err) \<Rightarrow>
                (Return (0, Some (Errorf ''exec failed: '' err)), w @ [EvExec q ctx query args])
            | (tag, None) \<Rightarrow>
                (Return (RowsAffected tag, None), w @ [EvExec q ctx query args])))"

subsection \<open>Transactions\<close>

text \<open>
  Modelled from the spec: \<^verbatim>\<open>pgx.BeginTxFunc\<close>, a function of the pgx library that the
  sources only call. Sections 4.3, 5 and 7 give the contract of the transaction mechanics:
  begin a transaction on the pool with the options; call \<open>fn\<close>; commit when it returns nil;
  roll back when it returns an error and hand that error on unchanged. A failure of the
  begin, of the commit or of the rollback itself is wrapped and returned, the original
  staying reachable through the wrapper; when the begin fails \<open>fn\<close> does not run. The spec
  names no wrapper text, so the three prefixes are parameters (\<open>begin_prefix\<close>,
  \<open>commit_prefix\<close>, \<open>rollback_prefix\<close>). The spec does not speak of a nil pool or of a
  panic of \<open>fn\<close>: the first is a call through a nil pointer, the second passes through
  after a rollback.
\<close>

definition pgx_BeginTxFunc ::
  "driver \<Rightarrow> Context \<Rightarrow> Pool option \<Rightarrow> TxOptions
     \<Rightarrow> (Tx \<Rightarrow> world \<Rightarrow> error option outcome \<times> world) \<Rightarrow> world
     \<Rightarrow> error option outcome \<times> world" where
  "pgx_BeginTxFunc drv ctx db txOptions fn w =
     (case db of
        None \<Rightarrow> (Panic nil_dereference, w)
      | Some p \<Rightarrow>
          (case Pool_BeginTx drv w p ctx txOptions of
             Inl err \<Rightarrow>
               (Return (Some (Errorf (begin_prefix drv) err)), w @ [EvBeginTx p ctx txOptions])
           | Inr tx \<Rightarrow>
               (case fn tx (w @ [EvBeginTx p ctx txOptions]) of
                  (Panic msg, w2) \<Rightarrow> (Panic msg, w2 @ [EvRollback tx ctx])
                | (Return (Some fErr), w2) \<Rightarrow>
                    (case Tx_Rollback drv w2 tx ctx of
                       Some err \<Rightarrow>
                         (Return (Some (Errorf (rollback_prefix drv) err)),
                          w2 @ [EvRollback tx ctx])
                     | None \<Rightarrow> (Return (Some fErr), w2 @ [EvRollback tx ctx]))
                | (Return None, w2) \<Rightarrow>
                    (case Tx_Commit drv w2 tx ctx of
                       Some err \<Rightarrow>
                         (Return (Some (Errorf (commit_prefix drv) err)),
                          w2 @ [EvCommit tx ctx])
                     | None \<Rightarrow> (Return None, w2 @ [EvCommit tx ctx])))))"

definition WithinTransaction ::
  "driver \<Rightarrow> DBHelper \<Rightarrow> Context \<Rightarrow> (Context \<Rightarrow> world \<Rightarrow> error option outcome \<times> world)
     \<Rightarrow> TxOptions list \<Rightarrow> world \<Rightarrow> error option outcome \<times> world" where
  "WithinTransaction drv d ctx fn opt w =
     (case requireNoTransaction d ctx of
        Panic msg \<Rightarrow> (Panic msg, w)
      | Return u \<Rightarrow>
          (let txOpt = (if length opt > 0 then opt ! 0 else TxOptions_zero)
           in pgx_BeginTxFunc drv ctx (pool d) txOpt (\<lambda>tx. fn (ctxWithTx ctx (Some tx))) w))"

subsection \<open>The named-query variant\<close>

text \<open>
  The variant embeds a helper and holds a \<^verbatim>\<open>*sqlset.SQLSet\<close>, an external lookup from a set
  name and a query name to SQL text; the set is represented by its \<^verbatim>\<open>Get\<close> method.
\<close>

type_synonym SQLSet = "string \<Rightarrow> string \<Rightarrow> string \<times> error option"

record sqlset_DBHelper =
  helper :: DBHelper
  sqlSet :: SQLSet

definition sqlset_New :: "SQLSet \<Rightarrow> (DBHelper \<Rightarrow> DBHelper) list \<Rightarrow> sqlset_DBHelper" where
  "sqlset_New s opts = \<lparr>helper = New opts, sqlSet = s\<rparr>"

definition sqlset_Get ::
  "driver \<Rightarrow> sqlset_DBHelper \<Rightarrow> Context \<Rightarrow> dest \<Rightarrow> string \<Rightarrow> string \<Rightarrow> any list \<Rightarrow> world
     \<Rightarrow> (dest \<times> error option) outcome \<times> world" where
  "sqlset_Get drv d ctx dst setID queryID args w =
     (case sqlSet d setID queryID of
        (query, Some err) \<Rightarrow> (Return (dst, Some err), w)
      | (query, None) \<Rightarrow> Get drv (helper d) ctx dst query args w)"

definition sqlset_Select ::
  "driver \<Rightarrow> sqlset_DBHelper \<Rightarrow> Context \<Rightarrow> dest \<Rightarrow> string \<Rightarrow> string \<Rightarrow> any list \<Rightarrow> world
     \<Rightarrow> (dest \<times> error option) outcome \<times> world" where
  "sqlset_Select drv d ctx dst setID queryID args w =
     (case sqlSet d setID queryID of
        (query, Some err) \<Rightarrow> (Return (dst, Some err), w)
      | (query, None) \<Rightarrow> Select drv (helper d) ctx dst query args w)"

definition sqlset_Exec ::
  "driver \<Rightarrow> sqlset_DBHelper \<Rightarrow> Context \<Rightarrow> string \<Rightarrow> string \<Rightarrow> any list \<Rightarrow> world
     \<Rightarrow> (int64 \<times> error option) outcome \<times> world" where
  "sqlset_Exec drv d ctx setID queryID args w =
     (case sqlSet d setID queryID of
        (query, Some err) \<Rightarrow> (Return (0, Some err), w)
      | (query, None) \<Rightarrow> Exec drv (helper d) ctx query args w)"

section \<open>Sample collaborators\<close>

text \<open>
  A database with one table, for the worked instances below. \<open>inserted\<close> reads the rows
  written so far off the calls made; \<open>demo_driver\<close> answers like an engine in which the
  argument list is a unique key: a second insert of the same arguments is a unique violation
  (SQLSTATE 23505), and a single-row fetch on an empty table is the no-rows condition.
  Its catalog holds the one database \<open>testdb\<close>. \<open>demo_down\<close> is the same engine when it
  cannot be reached, \<open>demo_flaky\<close> when it drops the connection before a transaction ends.
  \<open>alias_helper\<close> is connected under a name that the server in front of the engine maps to
  \<open>testdb\<close>; the catalog has no database of that name.
\<close>

definition demo_conf :: Config where
  "demo_conf = \<lparr>ConnString = ''postgres://localhost/testdb'', Database = ''testdb''\<rparr>"

definition demo_pool :: Pool where
  "demo_pool = Pool 1 demo_conf"

definition demo_helper :: DBHelper where
  "demo_helper = \<lparr>pool = Some demo_pool, scanAPI = ScanAPI True\<rparr>"

fun inserted :: "world \<Rightarrow> Rows" where
  "inserted [] = []"
| "inserted (EvExec q ctx sql args # w) = args # inserted w"
| "inserted (e # w) = inserted w"

definition demo_driver :: driver where
  "demo_driver = \<lparr>
     pgxpool_ParseConfig =
       (\<lambda>s. if s = [] then Inl (ErrorNew ''cannot parse connection string'')
            else Inr \<lparr>ConnString = s, Database = ''testdb''\<rparr>),
     pgxpool_NewWithConfig = (\<lambda>w ctx conf. (Some (Pool 1 conf), None)),
     Pool_Ping = (\<lambda>w p ctx. None),
     Querier_Query =
       (\<lambda>w q ctx sql args.
          if sql = ''SELECT 1 AS result FROM pg_database WHERE datname = $1''
          then (if args = [AnyString ''testdb''] then [[AnyInt 1]] else [], None)
          else (inserted w, None)),
     Querier_Exec =
       (\<lambda>w q ctx sql args.
          if args \<in> set (inserted w)
          then (CommandTag 0, Some (PgError ''23505'' ''duplicate key value''))
          else (CommandTag 1, None)),
     scanAPI_Get =
       (\<lambda>w api q ctx dst sql args.
          case inserted w of [] \<Rightarrow> (dst, Some ErrNoRows) | r # rs \<Rightarrow> ([r], None)),
     scanAPI_Select = (\<lambda>w api q ctx dst sql args. (inserted w, None)),
     Pool_BeginTx = (\<lambda>w p ctx opts. Inr (Tx (length w))),
     Tx_Commit = (\<lambda>w tx ctx. None),
     Tx_Rollback = (\<lambda>w tx ctx. None),
     begin_prefix = ''begin transaction: '',
     commit_prefix = ''commit transaction: '',
     rollback_prefix = ''rollback transaction: ''\<rparr>"

definition demo_down :: driver where
  "demo_down = demo_driver\<lparr>
     pgxpool_NewWithConfig := (\<lambda>w ctx conf. (None, Some (ErrorNew ''dial error''))),
     Pool_Ping := (\<lambda>w p ctx. Some (ErrorNew ''connection refused'')),
     Pool_BeginTx := (\<lambda>w p ctx opts. Inl (ErrorNew ''connection refused''))\<rparr>"


definition alias_helper :: DBHelper where
  "alias_helper =
     \<lparr>pool = Some (Pool 2 \<lparr>ConnString = ''postgres://localhost/app'', Database = ''app''\<rparr>),
      scanAPI = ScanAPI True\<rparr>"

text \<open>The unit of work of the repository's test: one insert, which must affect one row.\<close>

definition demo_insert :: "Context \<Rightarrow> world \<Rightarrow> error option outcome \<times> world" where
  "demo_insert ctx w =
     (case Exec demo_driver demo_helper ctx ''INSERT INTO users VALUES ($1)'' [AnyString ''111''] w of
        (Panic msg, w') \<Rightarrow> (Panic msg, w')
      | (Return (r, Some err), w') \<Rightarrow> (Return (Some err), w')
      | (Return (r, None), w') \<Rightarrow>
          (if r \<noteq> 1 then (Return (Some (ErrorNew ''expected 1 row affected'')), w')
           else (Return None, w')))"

text \<open>A query set with one registered query; a miss fails with the not-found condition,
  wrapped with the names asked for.\<close>

definition demo_sqlset :: SQLSet where
  "demo_sqlset setID queryID =
     (case map_of [((''test'', ''CreateTableCustomers''), ''CREATE TABLE customers (id TEXT)'')]
             (setID, queryID) of
        Some query \<Rightarrow> (query, None)
      | None \<Rightarrow> ([], Some (Errorf (setID @ ''.'' @ queryID @ '': '') ErrQueryNotFound)))"

section \<open>Resolution of the execution target\<close>

lemma ctxGetTx_carried: "ctxGetTx ctx = carried ctx"
proof (induction ctx)
  case Background
  show ?case by (simp add: ctxGetTx_def)
next
  case (WithValue parent k v)
  then show ?case
    by (cases k; cases v) (simp_all add: ctxGetTx_def)
next
  case (WithTimeout parent t)
  then show ?case by (simp add: ctxGetTx_def)
qed

text \<open>
  Claim C1. A context that carries no transaction resolves to the helper's pool; a context
  that carries an attached transaction resolves to that transaction.
\<close>

theorem Querier_resolves:
  "(carried ctx = None \<longrightarrow> Querier d ctx = QPool (pool d)) \<and>
   (carried ctx = Some tx \<longrightarrow> Querier d ctx = QTx tx)"
  by (simp add: Querier_def ctxGetTx_carried)

theorem Querier_resolves_witness:
  "carried (WithTimeout Background 5) = None \<and>
   Querier \<lparr>pool = Some (Pool 1 \<lparr>ConnString = ''postgres://h/db'', Database = ''db''\<rparr>),
            scanAPI = ScanAPI True\<rparr> (WithTimeout Background 5)
     = QPool (Some (Pool 1 \<lparr>ConnString = ''postgres://h/db'', Database = ''db''\<rparr>)) \<and>
   carried (WithValue (WithValue Background txKey (ValTx (Tx 7))) (otherKey ''user'') (ValOther ''u''))
     = Some (Tx 7) \<and>
   Querier \<lparr>pool = None, scanAPI = ScanAPI True\<rparr>
     (WithValue (WithValue Background txKey (ValTx (Tx 7))) (otherKey ''user'') (ValOther ''u''))
     = QTx (Tx 7)"
  using Querier_resolves [of "WithTimeout Background 5"
      "\<lparr>pool = Some (Pool 1 \<lparr>ConnString = ''postgres://h/db'', Database = ''db''\<rparr>),
        scanAPI = ScanAPI True\<rparr>" "Tx 7"]
    Querier_resolves [of
      "WithValue (WithValue Background txKey (ValTx (Tx 7))) (otherKey ''user'') (ValOther ''u'')"
      "\<lparr>pool = None, scanAPI = ScanAPI True\<rparr>" "Tx 7"]
  by simp

section \<open>Attaching a transaction to a context\<close>

text \<open>
  Claim C2. Attaching a transaction \<open>tx\<close> to any context \<open>c0\<close> gives a new context that
  resolves to \<open>tx\<close>. The original is not changed: it is the parent link of the new value,
  it resolves as before when read back from there, and every foreign key of \<open>c0\<close> reads
  the same through the new context.
\<close>

theorem ctxWithTx_attaches:
  "Querier d (ctxWithTx c0 (Some tx)) = QTx tx \<and>
   ctxGetTx (ctxWithTx c0 (Some tx)) = Some tx \<and>
   Context_parent (ctxWithTx c0 (Some tx)) = Some c0 \<and>
   (\<forall>c. Context_parent (ctxWithTx c0 (Some tx)) = Some c \<longrightarrow> Querier d c = Querier d c0) \<and>
   (\<forall>key. key \<noteq> txKey \<longrightarrow>
      Context_Value (ctxWithTx c0 (Some tx)) key = Context_Value c0 key)"
  by (simp add: Querier_def ctxGetTx_def ctxWithTx_def)

theorem ctxWithTx_attaches_witness:
  "Querier \<lparr>pool = None, scanAPI = ScanAPI True\<rparr>
     (ctxWithTx (WithValue Background (otherKey ''user'') (ValOther ''u'')) (Some (Tx 3)))
     = QTx (Tx 3) \<and>
   Querier \<lparr>pool = None, scanAPI = ScanAPI True\<rparr>
     (WithValue Background (otherKey ''user'') (ValOther ''u'')) = QPool None \<and>
   Context_Value
     (ctxWithTx (WithValue Background (otherKey ''user'') (ValOther ''u'')) (Some (Tx 3)))
     (otherKey ''user'') = ValOther ''u''"
  using ctxWithTx_attaches [of "\<lparr>pool = None, scanAPI = ScanAPI True\<rparr>"
      "WithValue Background (otherKey ''user'') (ValOther ''u'')" "Tx 3"]
  by (simp add: Querier_def ctxGetTx_def)

section \<open>Executing statements\<close>

lemma errors_Is_refl: "errors_Is err err"
  by (cases err) simp_all

text \<open>
  Claim C5. Where the call resolves to a target that exists (a transaction, or a pool that
  is set): when the target's \<^verbatim>\<open>Exec\<close> fails with \<open>err\<close>, the helper returns the count 0 and
  \<open>err\<close> wrapped under the prefix \<open>exec failed: \<close>; the message starts with that prefix,
  \<^verbatim>\<open>Unwrap\<close> gives \<open>err\<close> back, and \<^verbatim>\<open>errors.Is\<close> and \<^verbatim>\<open>errors.As\<close> see through the wrapper
  what they see in \<open>err\<close>. When it succeeds, the helper returns the count of the command
  tag and no error.
\<close>

theorem Exec_wraps_failure:
  assumes "\<not> is_nil_pool (Querier d ctx)"
  shows "(Querier_Exec drv w (Querier d ctx) ctx query args = (tag, Some err) \<longrightarrow>
            Exec drv d ctx query args w
              = (Return (0, Some (Errorf ''exec failed: '' err)),
                 w @ [EvExec (Querier d ctx) ctx query args]) \<and>
            error_Error (Errorf ''exec failed: '' err) = ''exec failed: '' @ error_Error err \<and>
            errors_Unwrap (Errorf ''exec failed: '' err) = Some err \<and>
            errors_Is (Errorf ''exec failed: '' err) err \<and>
            (\<forall>target. errors_Is err target \<longrightarrow> errors_Is (Errorf ''exec failed: '' err) target) \<and>
            errors_As_PgError (Errorf ''exec failed: '' err) = errors_As_PgError err) \<and>
         (Querier_Exec drv w (Querier d ctx) ctx query args = (tag, None) \<longrightarrow>
            Exec drv d ctx query args w
              = (Return (RowsAffected tag, None), w @ [EvExec (Querier d ctx) ctx query args]))"
  using assms by (simp add: Exec_def Let_def errors_Is_refl)

theorem Exec_wraps_failure_witness:
  "\<not> is_nil_pool (Querier demo_helper Background) \<and>
   Exec demo_driver demo_helper Background ''INSERT INTO users VALUES ($1)'' [AnyString ''333''] []
     = (Return (1, None),
        [EvExec (QPool (Some demo_pool)) Background
           ''INSERT INTO users VALUES ($1)'' [AnyString ''333'']]) \<and>
   Exec demo_driver demo_helper Background ''INSERT INTO users VALUES ($1)'' [AnyString ''333'']
       [EvExec (QPool (Some demo_pool)) Background
          ''INSERT INTO users VALUES ($1)'' [AnyString ''333'']]
     = (Return (0, Some (Errorf ''exec failed: '' (PgError ''23505'' ''duplicate key value''))),
        [EvExec (QPool (Some demo_pool)) Background
           ''INSERT INTO users VALUES ($1)'' [AnyString ''333''],
         EvExec (QPool (Some demo_pool)) Background
           ''INSERT INTO users VALUES ($1)'' [AnyString ''333'']]) \<and>
   errors_As_PgError (Errorf ''exec failed: '' (PgError ''23505'' ''duplicate key value''))
     = Some (''23505'', ''duplicate key value'') \<and>
   error_Error (Errorf ''exec failed: '' (PgError ''23505'' ''duplicate key value''))
     = ''exec failed: duplicate key value (SQLSTATE 23505)''"
  using Exec_wraps_failure [where d = demo_helper and ctx = Background and drv = demo_driver
      and w = "[]" and query = "''INSERT INTO users VALUES ($1)''" and args = "[AnyString ''333'']"
      and tag = "CommandTag 1"]
    Exec_wraps_failure [where d = demo_helper and ctx = Background and drv = demo_driver
      and w = "[EvExec (QPool (Some demo_pool)) Background
          ''INSERT INTO users VALUES ($1)'' [AnyString ''333'']]"
      and query = "''INSERT INTO users VALUES ($1)''" and args = "[AnyString ''333'']"
      and tag = "CommandTag 0" and err = "PgError ''23505'' ''duplicate key value''"]
  by (simp add: Querier_def ctxGetTx_def demo_helper_def demo_driver_def)

section \<open>Fetching one row\<close>

text \<open>
  Claim C9. Where the call resolves to a target that exists: whatever error the row-mapping
  collaborator gives for the single-row fetch, and so the no-rows condition it gives when
  the query matches nothing, is what \<^verbatim>\<open>Get\<close> returns, the same value, with the destination as
  the collaborator left it and after that one call only.
\<close>

theorem Get_propagates_scan_error:
  assumes "\<not> is_nil_pool (Querier d ctx)"
    and "scanAPI_Get drv w (scanAPI d) (Querier d ctx) ctx dst query args = (dst', Some err)"
  shows "Get drv d ctx dst query args w
           = (Return (dst', Some err), w @ [EvScanGet (scanAPI d) (Querier d ctx) ctx query args])"
  using assms by (simp add: Get_def Let_def)

theorem Get_propagates_scan_error_witness:
  "\<not> is_nil_pool (Querier demo_helper Background) \<and>
   inserted [] = [] \<and>
   scanAPI_Get demo_driver [] (scanAPI demo_helper) (Querier demo_helper Background) Background []
       ''SELECT * FROM users WHERE id = $1'' [AnyString ''333'']
     = ([], Some ErrNoRows) \<and>
   Get demo_driver demo_helper Background [] ''SELECT * FROM users WHERE id = $1''
       [AnyString ''333''] []
     = (Return ([], Some ErrNoRows),
        [EvScanGet (ScanAPI True) (QPool (Some demo_pool)) Background
           ''SELECT * FROM users WHERE id = $1'' [AnyString ''333'']])"
  using Get_propagates_scan_error [where d = demo_helper and ctx = Background
      and drv = demo_driver and w = "[]" and dst = "[]" and dst' = "[]"
      and query = "''SELECT * FROM users WHERE id = $1''" and args = "[AnyString ''333'']"
      and err = ErrNoRows]
  by (simp add: Querier_def ctxGetTx_def demo_helper_def demo_driver_def)

section \<open>Named queries\<close>

text \<open>
  Claim C8. When the lookup of the set name and query name fails with \<open>err\<close> (for an
  unregistered name: the query-not-found condition), the variant's \<^verbatim>\<open>Exec\<close> returns the
  count 0 and \<open>err\<close> itself, and \<^verbatim>\<open>Get\<close> and \<^verbatim>\<open>Select\<close> return \<open>err\<close> itself; none of the three
  makes a call to the database: the world is as it was.
\<close>

theorem sqlset_lookup_failure:
  assumes "sqlSet d setID queryID = (query, Some err)"
  shows "sqlset_Exec drv d ctx setID queryID args w = (Return (0, Some err), w) \<and>
         sqlset_Get drv d ctx dst setID queryID args w = (Return (dst, Some err), w) \<and>
         sqlset_Select drv d ctx dst setID queryID args w = (Return (dst, Some err), w)"
  using assms by (simp add: sqlset_Exec_def sqlset_Get_def sqlset_Select_def)

theorem sqlset_lookup_failure_witness:
  "sqlSet \<lparr>helper = demo_helper, sqlSet = demo_sqlset\<rparr> ''test'' ''Unknown''
     = ([], Some (Errorf ''test.Unknown: '' ErrQueryNotFound)) \<and>
   errors_Is (Errorf ''test.Unknown: '' ErrQueryNotFound) ErrQueryNotFound \<and>
   sqlset_Exec demo_driver \<lparr>helper = demo_helper, sqlSet = demo_sqlset\<rparr> Background
       ''test'' ''Unknown'' [] []
     = (Return (0, Some (Errorf ''test.Unknown: '' ErrQueryNotFound)), []) \<and>
   sqlset_Get demo_driver \<lparr>helper = demo_helper, sqlSet = demo_sqlset\<rparr> Background []
       ''test'' ''Unknown'' [] []
     = (Return ([], Some (Errorf ''test.Unknown: '' ErrQueryNotFound)), []) \<and>
   sqlset_Select demo_driver \<lparr>helper = demo_helper, sqlSet = demo_sqlset\<rparr> Background []
       ''test'' ''Unknown'' [] []
     = (Return ([], Some (Errorf ''test.Unknown: '' ErrQueryNotFound)), [])"
  using sqlset_lookup_failure [where d = "\<lparr>helper = demo_helper, sqlSet = demo_sqlset\<rparr>"
      and setID = "''test''" and queryID = "''Unknown''" and query = "[]"
      and err = "Errorf ''test.Unknown: '' ErrQueryNotFound" and drv = demo_driver
      and ctx = Background and args = "[]" and w = "[]" and dst = "[]"]
  by (simp add: demo_sqlset_def ErrQueryNotFound_def)

section \<open>Transactions\<close>

text \<open>
  Claim C3. On a context that already carries a transaction, \<^verbatim>\<open>WithinTransaction\<close> panics,
  whatever the work function, the options and the helper are; it returns no error value,
  and the world is untouched: no transaction was begun and the work did not run.
\<close>

theorem WithinTransaction_nested_panics:
  "carried ctx = Some tx \<Longrightarrow>
   WithinTransaction drv d ctx fn opt w =
     (Panic ''context already contains an unexpected transaction'', w)"
  by (simp add: WithinTransaction_def requireNoTransaction_def ctxGetTx_carried)

theorem WithinTransaction_nested_panics_witness:
  "carried (ctxWithTx Background (Some (Tx 4))) = Some (Tx 4) \<and>
   WithinTransaction demo_driver demo_helper (ctxWithTx Background (Some (Tx 4))) demo_insert [] []
     = (Panic ''context already contains an unexpected transaction'', [])"
  using WithinTransaction_nested_panics [of "ctxWithTx Background (Some (Tx 4))" "Tx 4"
      demo_driver demo_helper demo_insert "[]" "[]"]
  by (simp add: ctxWithTx_def)



text \<open>
  Claim C10. Without options, \<^verbatim>\<open>WithinTransaction\<close> behaves as with the zero-value options
  alone; with one or more, as with the first alone, whatever follows it. On a context that
  carries no transaction these are the options handed to the begin of the transaction.
\<close>

theorem WithinTransaction_options:
  "WithinTransaction drv d ctx fn [] w = WithinTransaction drv d ctx fn [TxOptions_zero] w \<and>
   WithinTransaction drv d ctx fn (o1 # rest) w = WithinTransaction drv d ctx fn [o1] w \<and>
   (carried ctx = None \<longrightarrow>
      WithinTransaction drv d ctx fn [] w
        = pgx_BeginTxFunc drv ctx (pool d) TxOptions_zero (\<lambda>tx. fn (ctxWithTx ctx (Some tx))) w \<and>
      WithinTransaction drv d ctx fn (o1 # rest) w
        = pgx_BeginTxFunc drv ctx (pool d) o1 (\<lambda>tx. fn (ctxWithTx ctx (Some tx))) w)"
  by (cases "carried ctx")
    (simp_all add: WithinTransaction_def requireNoTransaction_def ctxGetTx_carried Let_def)

theorem WithinTransaction_options_witness:
  "carried (WithTimeout Background 30) = None \<and>
   WithinTransaction demo_driver demo_helper (WithTimeout Background 30) demo_insert
       [TxOptions_zero\<lparr>IsoLevel := ''serializable''\<rparr>, TxOptions_zero\<lparr>AccessMode := ''read only''\<rparr>] []
     = (Return None,
        [EvBeginTx demo_pool (WithTimeout Background 30) (TxOptions_zero\<lparr>IsoLevel := ''serializable''\<rparr>),
         EvExec (QTx (Tx 0)) (ctxWithTx (WithTimeout Background 30) (Some (Tx 0)))
           ''INSERT INTO users VALUES ($1)'' [AnyString ''111''],
         EvCommit (Tx 0) (WithTimeout Background 30)]) \<and>
   WithinTransaction demo_driver demo_helper (WithTimeout Background 30) demo_insert [] []
     = (Return None,
        [EvBeginTx demo_pool (WithTimeout Background 30) TxOptions_zero,
         EvExec (QTx (Tx 0)) (ctxWithTx (WithTimeout Background 30) (Some (Tx 0)))
           ''INSERT INTO users VALUES ($1)'' [AnyString ''111''],
         EvCommit (Tx 0) (WithTimeout Background 30)])"
  using WithinTransaction_options [where ctx = "WithTimeout Background 30" and d = demo_helper
      and drv = demo_driver and w = "[]" and fn = demo_insert
      and ?o1.0 = "TxOptions_zero\<lparr>IsoLevel := ''serializable''\<rparr>"
      and rest = "[TxOptions_zero\<lparr>AccessMode := ''read only''\<rparr>]"]
  by (simp add: WithinTransaction_def requireNoTransaction_def pgx_BeginTxFunc_def
      demo_helper_def demo_driver_def demo_insert_def Exec_def Querier_def ctxGetTx_def
      ctxWithTx_def)

section \<open>Connecting\<close>

text \<open>
  Claim C6. When the connection string does not parse, \<^verbatim>\<open>Connect\<close> returns the error wrapped
  and leaves the helper exactly as it was, without a call to the database. When the pool
  cannot be created, it returns the error wrapped and the pool field holds the pointer that
  came with the error, which is nil for pgxpool. So a helper that had no pool has none after
  either failure. When the pool is created, the result is that of \<^verbatim>\<open>Ping\<close> on the helper
  with the new pool, under the time-limited context.
\<close>

theorem Connect_failure:
  "(pgxpool_ParseConfig drv connStr = Inl err \<longrightarrow>
      Connect drv d connStr timeout w
        = ((Return (Some (Errorf ''parse database config failure: '' err)), d), w)) \<and>
   (pgxpool_ParseConfig drv connStr = Inr conf \<and>
    pgxpool_NewWithConfig drv w (WithTimeout Background timeout) conf = (p, Some err) \<longrightarrow>
      Connect drv d connStr timeout w
        = ((Return (Some (Errorf ''database pool creation failure: '' err)), d\<lparr>pool := p\<rparr>),
           w @ [EvNewWithConfig (WithTimeout Background timeout) conf])) \<and>
   (pool d = None \<and>
    (pgxpool_ParseConfig drv connStr = Inl err \<or>
     pgxpool_ParseConfig drv connStr = Inr conf \<and>
     pgxpool_NewWithConfig drv w (WithTimeout Background timeout) conf = (None, Some err)) \<longrightarrow>
      pool (snd (fst (Connect drv d connStr timeout w))) = None \<and>
      (\<exists>e. fst (fst (Connect drv d connStr timeout w)) = Return (Some e) \<and>
           errors_Unwrap e = Some err)) \<and>
   (pgxpool_ParseConfig drv connStr = Inr conf \<and>
    pgxpool_NewWithConfig drv w (WithTimeout Background timeout) conf = (p, None) \<longrightarrow>
      Connect drv d connStr timeout w
        = ((fst (Ping drv (d\<lparr>pool := p\<rparr>) (WithTimeout Background timeout)
                  (w @ [EvNewWithConfig (WithTimeout Background timeout) conf])),
            d\<lparr>pool := p\<rparr>),
           snd (Ping drv (d\<lparr>pool := p\<rparr>) (WithTimeout Background timeout)
                  (w @ [EvNewWithConfig (WithTimeout Background timeout) conf]))))"
  by (auto simp add: Connect_def Let_def split: prod.splits)

theorem Connect_failure_witness:
  "Connect demo_driver (New []) [] 5000000000 [] =
     ((Return (Some (Errorf ''parse database config failure: ''
                      (ErrorNew ''cannot parse connection string''))), New []), []) \<and>
   pool (New []) = None \<and>
   Connect demo_down (New []) ''postgres://localhost/testdb'' 5000000000 [] =
     ((Return (Some (Errorf ''database pool creation failure: '' (ErrorNew ''dial error''))),
       \<lparr>pool = None, scanAPI = ScanAPI True\<rparr>),
      [EvNewWithConfig (WithTimeout Background 5000000000) demo_conf]) \<and>
   Connect demo_driver (New []) ''postgres://localhost/testdb'' 5000000000 [] =
     ((Return None, demo_helper),
      [EvNewWithConfig (WithTimeout Background 5000000000) demo_conf,
       EvPing demo_pool (WithTimeout Background 5000000000),
       EvQuery (QPool (Some demo_pool)) (WithTimeout Background 5000000000)
         ''SELECT 1 AS result FROM pg_database WHERE datname = $1'' [AnyString ''testdb''],
       EvRowsClose])"
  using Connect_failure [where drv = demo_driver and connStr = "[]" and d = "New []"
      and timeout = 5000000000 and w = "[]" and err = "ErrorNew ''cannot parse connection string''"]
    Connect_failure [where drv = demo_down and connStr = "''postgres://localhost/testdb''"
      and d = "New []" and timeout = 5000000000 and w = "[]" and err = "ErrorNew ''dial error''"
      and conf = demo_conf and p = None]
    Connect_failure [where drv = demo_driver and connStr = "''postgres://localhost/testdb''"
      and d = "New []" and timeout = 5000000000 and w = "[]" and conf = demo_conf
      and p = "Some demo_pool"]
  by (simp add: New_def demo_driver_def demo_down_def demo_conf_def demo_pool_def
      demo_helper_def Ping_def)

section \<open>The liveness check\<close>

text \<open>
  Claim C7, for a helper whose pool is set. \<^verbatim>\<open>Ping\<close> makes the driver-level ping and, when
  that succeeds, the catalog query with the configured database name as its argument. It
  returns the ping's error wrapped, or the query's error wrapped; it returns nil when both
  calls succeed and the query finds the database under that name; and it does not panic.
\<close>

theorem Ping_connected:
  assumes "pool d = Some p"
  shows "(Pool_Ping drv w p ctx = Some err \<longrightarrow>
            Ping drv d ctx w
              = (Return (Some (Errorf ''database ping error: '' err)), w @ [EvPing p ctx])) \<and>
         (Pool_Ping drv w p ctx = None \<and>
          Querier_Query drv (w @ [EvPing p ctx]) (QPool (Some p)) ctx
            ''SELECT 1 AS result FROM pg_database WHERE datname = $1''
            [AnyString (Database (Pool_Config p))] = (rows, Some err) \<longrightarrow>
            Ping drv d ctx w
              = (Return (Some (Errorf ''database query failure: '' err)),
                 w @ [EvPing p ctx,
                      EvQuery (QPool (Some p)) ctx
                        ''SELECT 1 AS result FROM pg_database WHERE datname = $1''
                        [AnyString (Database (Pool_Config p))]])) \<and>
         (Pool_Ping drv w p ctx = None \<and>
          Querier_Query drv (w @ [EvPing p ctx]) (QPool (Some p)) ctx
            ''SELECT 1 AS result FROM pg_database WHERE datname = $1''
            [AnyString (Database (Pool_Config p))] = (rows, None) \<and> rows \<noteq> [] \<longrightarrow>
            Ping drv d ctx w
              = (Return None,
                 w @ [EvPing p ctx,
                      EvQuery (QPool (Some p)) ctx
                        ''SELECT 1 AS result FROM pg_database WHERE datname = $1''
                        [AnyString (Database (Pool_Config p))],
                      EvRowsClose])) \<and>
         (\<forall>msg. fst (Ping drv d ctx w) \<noteq> Panic msg)"
  using assms by (auto simp add: Ping_def Let_def split: option.splits prod.splits)

theorem Ping_connected_witness:
  "pool demo_helper = Some demo_pool \<and>
   Querier_Query demo_driver [EvPing demo_pool Background] (QPool (Some demo_pool)) Background
       ''SELECT 1 AS result FROM pg_database WHERE datname = $1''
       [AnyString (Database (Pool_Config demo_pool))]
     = ([[AnyInt 1]], None) \<and>
   Ping demo_driver demo_helper Background [] =
     (Return None,
      [EvPing demo_pool Background,
       EvQuery (QPool (Some demo_pool)) Background
         ''SELECT 1 AS result FROM pg_database WHERE datname = $1'' [AnyString ''testdb''],
       EvRowsClose]) \<and>
   Ping demo_down demo_helper Background [] =
     (Return (Some (Errorf ''database ping error: '' (ErrorNew ''connection refused''))),
      [EvPing demo_pool Background])"
  using Ping_connected [where d = demo_helper and p = demo_pool and drv = demo_driver
      and w = "[]" and ctx = Background and rows = "[[AnyInt 1]]"]
    Ping_connected [where d = demo_helper and p = demo_pool and drv = demo_down
      and w = "[]" and ctx = Background and err = "ErrorNew ''connection refused''"]
  by (simp add: demo_helper_def demo_driver_def demo_down_def demo_pool_def demo_conf_def)

text \<open>
  The claim as it was written fails twice. It says that \<^verbatim>\<open>Ping\<close> never panics: on a
  helper that was created and not yet connected the pool is nil, and the first call through
  it panics. It says that \<^verbatim>\<open>Ping\<close> confirms the database is named correctly: the rows of the
  catalog query are closed unread, so a helper connected under a name the catalog does not
  hold gets nil all the same.
\<close>

theorem Ping_panics_or_passes_unknown_name:
  "pool (New []) = None \<and>
   Ping demo_driver (New []) Background [] = (Panic nil_dereference, []) \<and>
   Querier_Query demo_driver
       [EvPing (Pool 2 \<lparr>ConnString = ''postgres://localhost/app'', Database = ''app''\<rparr>) Background]
       (QPool (pool alias_helper)) Background
       ''SELECT 1 AS result FROM pg_database WHERE datname = $1'' [AnyString ''app'']
     = ([], None) \<and>
   Ping demo_driver alias_helper Background [] =
     (Return None,
      [EvPing (Pool 2 \<lparr>ConnString = ''postgres://localhost/app'', Database = ''app''\<rparr>) Background,
       EvQuery (QPool (pool alias_helper)) Background
         ''SELECT 1 AS result FROM pg_database WHERE datname = $1'' [AnyString ''app''],
       EvRowsClose])"
  by (simp add: Ping_def New_def demo_driver_def alias_helper_def)

end
